theory Spec2Isabelle
  imports Main "HOL-Library.Sublist"
begin

section \<open>Strings of the component\<close>

text \<open>
  A JavaScript string is a sequence of UTF-16 code units; a code unit is modelled by its
  number. \<open>lit\<close> embeds an ASCII literal of the source.
\<close>

type_synonym jsstring = "nat list"

definition lit :: "string \<Rightarrow> jsstring" where
  "lit s = map of_char s"

text \<open>
  \<open>String.prototype.trim\<close> removes leading and trailing WhiteSpace and LineTerminator
  code points (ECMAScript): TAB, LF, VT, FF, CR, SP, NBSP, U+1680, U+2000 to U+200A,
  U+2028, U+2029, U+202F, U+205F, U+3000 and U+FEFF, all of one code unit.
\<close>

definition isWhiteSpace :: "nat \<Rightarrow> bool" where
  "isWhiteSpace c =
     (c = 0x9 \<or> c = 0xA \<or> c = 0xB \<or> c = 0xC \<or> c = 0xD \<or> c = 0x20 \<or> c = 0xA0 \<or>
      c = 0x1680 \<or> (0x2000 \<le> c \<and> c \<le> 0x200A) \<or> c = 0x2028 \<or> c = 0x2029 \<or>
      c = 0x202F \<or> c = 0x205F \<or> c = 0x3000 \<or> c = 0xFEFF)"

definition trim :: "jsstring \<Rightarrow> jsstring" where
  "trim s = rev (dropWhile isWhiteSpace (rev (dropWhile isWhiteSpace s)))"

section \<open>Data structures of RiskChat.tsx\<close>

text \<open>
  The types of the component, field by field. An optional field (\<open>f?: T\<close>) is an
  option: \<open>None\<close> is the absent (undefined) field. A field whose name is a keyword of
  Isabelle or is used by two types has a suffix.
\<close>

record RiskMetadata =
  company_name :: jsstring
  risk_category :: jsstring
  risk_subcategory :: jsstring
  priority :: int
  doc_type :: "jsstring option"
  source_name :: "jsstring option"
  duns_id :: "jsstring option"
  file_source_tag :: "jsstring option"
  business_id :: "jsstring option"

record RiskContextItem =
  item_content :: jsstring
  metadata :: RiskMetadata

datatype Role = User | Assistant

text \<open>
  \<open>ChatMessage\<close>. The source declares \<open>content: string\<close>; the chat variant stores
  \<open>data.response\<close> of the untyped response body there without a check, so at run time
  the field may hold \<open>undefined\<close>, the \<open>None\<close> of the model.
\<close>

record ChatMessage =
  role :: Role
  content :: "jsstring option"
  msg_context :: "RiskContextItem list option"

datatype BackendRole = BackendUser | BackendModel

record BackendChatMessage =
  backend_role :: BackendRole
  backend_text :: "jsstring option"

text \<open>The prop \<open>initialResponse\<close> of the component (itself optional).\<close>

record InitialResponse =
  init_query :: "jsstring option"
  init_status :: "jsstring option"
  init_count :: "int option"
  init_context :: "RiskContextItem list option"

text \<open>The request bodies of the two variants.\<close>

record ChatRequest =
  query :: jsstring
  history :: "BackendChatMessage list"
  k :: nat

record RetrieveRequest =
  retrieve_query :: jsstring
  retrieve_k :: nat

text \<open>
  What \<open>await axios.post(...)\<close> gives. The promise is rejected on a network error and on
  a status outside 2xx; the thrown value is kept as the text its interpolation in a
  template literal gives, \<open>None\<close> for a thrown \<open>null\<close> or \<open>undefined\<close>. It is fulfilled
  with a response whose \<open>data\<close> is untyped: \<open>NoData t\<close> is a body that is \<open>null\<close> or
  \<open>undefined\<close>, where reading a property raises a TypeError whose text is \<open>t\<close>;
  \<open>Data r c\<close> is any other body, \<open>r\<close> its \<open>response\<close> and \<open>c\<close> its \<open>context\<close>,
  \<open>None\<close> when the field is missing or \<open>null\<close>. Fields that are present are taken to
  have their declared types.
\<close>

datatype ResponseData =
  NoData jsstring
  | Data (response: "jsstring option") (resp_context: "RiskContextItem list option")

datatype Outcome = Fulfilled ResponseData | Rejected "jsstring option"

section \<open>Component state\<close>

text \<open>
  The retrieve variant has the state variables \<open>messages\<close> and \<open>input\<close>; the chat
  variant has \<open>isLoading\<close> as well.
\<close>

record RetrieveState =
  messages :: "ChatMessage list"
  input :: jsstring

record ChatState = RetrieveState +
  isLoading :: bool

section \<open>The initial turn sequence\<close>

definition dquote :: jsstring where
  "dquote = [0x22]"

text \<open>
  The initialiser of \<open>useState<ChatMessage[]>\<close> in the chat variant. The test
  \<open>initialResponse?.context?.length\<close> holds when the prop is given, has a context and
  the context has an element; \<open>initialResponse.query ? ... : ...\<close> takes the first branch
  for a query that is present and not the empty string.
\<close>

definition initialContent_chat :: "jsstring option \<Rightarrow> jsstring" where
  "initialContent_chat q =
     (case q of
        None \<Rightarrow> lit ''Loaded initial risk data.''
      | Some t \<Rightarrow>
          (if t = [] then lit ''Loaded initial risk data.''
           else lit ''Here are the initial risk findings for: '' @ dquote @ t @ dquote))"

definition initialMessages_chat :: "InitialResponse option \<Rightarrow> ChatMessage list" where
  "initialMessages_chat initialResponse =
     (case initialResponse of
        None \<Rightarrow> []
      | Some r \<Rightarrow>
          (case init_context r of
             None \<Rightarrow> []
           | Some c \<Rightarrow>
               (if length c = 0 then []
                else [\<lparr>role = Assistant,
                       content = Some (initialContent_chat (init_query r)),
                       msg_context = Some c\<rparr>])))"

text \<open>The same initialiser in the retrieve variant: another text, and a greeting.\<close>

definition initialContent_retrieve :: "jsstring option \<Rightarrow> jsstring" where
  "initialContent_retrieve q =
     (case q of
        None \<Rightarrow> lit ''Loaded initial risk data.''
      | Some t \<Rightarrow>
          (if t = [] then lit ''Loaded initial risk data.''
           else lit ''Here are the high priority risks for: '' @ dquote @ t @ dquote))"

definition greeting :: ChatMessage where
  "greeting =
     \<lparr>role = Assistant,
      content = Some (lit ''Ask a query to retrieve risk findings.''),
      msg_context = None\<rparr>"

definition initialMessages_retrieve :: "InitialResponse option \<Rightarrow> ChatMessage list" where
  "initialMessages_retrieve initialResponse =
     (case initialResponse of
        None \<Rightarrow> [greeting]
      | Some r \<Rightarrow>
          (case init_context r of
             None \<Rightarrow> [greeting]
           | Some c \<Rightarrow>
               (if length c = 0 then [greeting]
                else [\<lparr>role = Assistant,
                       content = Some (initialContent_retrieve (init_query r)),
                       msg_context = Some c\<rparr>])))"

definition RiskChat_chat :: "InitialResponse option \<Rightarrow> ChatState" where
  "RiskChat_chat initialResponse =
     \<lparr>messages = initialMessages_chat initialResponse, input = [], isLoading = False\<rparr>"

definition RiskChat_retrieve :: "InitialResponse option \<Rightarrow> RetrieveState" where
  "RiskChat_retrieve initialResponse =
     \<lparr>messages = initialMessages_retrieve initialResponse, input = []\<rparr>"

section \<open>sendMessage, chat variant\<close>

text \<open>
  \<open>sendMessage\<close> is an async function: it runs up to \<open>await axios.post\<close>, and its
  continuation runs when the promise settles. The model has one function for each
  part. The first part reads \<open>input\<close>, \<open>isLoading\<close> and \<open>messages\<close> of the render the
  handler belongs to, which is the current state: React renders again after a state
  update, before the next event is handled.
\<close>

definition newUserMessage :: "jsstring \<Rightarrow> ChatMessage" where
  "newUserMessage inp = \<lparr>role = User, content = Some inp, msg_context = None\<rparr>"

definition toBackend :: "ChatMessage \<Rightarrow> BackendChatMessage" where
  "toBackend msg =
     \<lparr>backend_role = (if role msg = Assistant then BackendModel else BackendUser),
      backend_text = content msg\<rparr>"

definition requestBody :: "ChatState \<Rightarrow> ChatRequest" where
  "requestBody s = \<lparr>query = input s, history = map toBackend (messages s), k = 5\<rparr>"

text \<open>
  The part before the await: \<open>None\<close> is the early \<open>return\<close>; otherwise the state after
  the three updates, the \<open>newUserMessage\<close> the continuation keeps, and the request sent.
\<close>

definition sendMessage_chat :: "ChatState \<Rightarrow> (ChatState \<times> ChatMessage \<times> ChatRequest) option" where
  "sendMessage_chat s =
     (if trim (input s) = [] \<or> isLoading s then None
      else Some (s\<lparr>messages := messages s @ [newUserMessage (input s)],
                    input := [], isLoading := True\<rparr>,
                 newUserMessage (input s),
                 requestBody s))"

definition errorContent_chat :: "jsstring option \<Rightarrow> jsstring" where
  "errorContent_chat e =
     lit ''Sorry, an error occurred while processing your query. (Error: ''
       @ (case e of None \<Rightarrow> lit ''Unknown'' | Some t \<Rightarrow> t) @ lit '')''"

text \<open>
  The \<open>catch\<close> block followed by \<open>finally\<close>; \<open>prev.slice(0, prev.length - 1)\<close> is
  \<open>butlast\<close>, also on the empty array.
\<close>

definition catch_chat :: "jsstring option \<Rightarrow> ChatState \<Rightarrow> ChatState" where
  "catch_chat e s =
     s\<lparr>messages := butlast (messages s)
          @ [\<lparr>role = Assistant, content = Some (errorContent_chat e), msg_context = None\<rparr>],
       isLoading := False\<rparr>"

text \<open>\<open>data.context || []\<close>: an array, also an empty one, is truthy.\<close>

definition contextOrEmpty :: "RiskContextItem list option \<Rightarrow> RiskContextItem list" where
  "contextOrEmpty c = (case c of None \<Rightarrow> [] | Some items \<Rightarrow> items)"

text \<open>
  The continuation, for the \<open>newUserMessage\<close> of the call and the outcome of the
  request, on the state at that time (the updaters receive \<open>prev\<close>).
\<close>

definition resume_chat :: "ChatMessage \<Rightarrow> Outcome \<Rightarrow> ChatState \<Rightarrow> ChatState" where
  "resume_chat userMsg out s =
     (case out of
        Rejected e \<Rightarrow> catch_chat e s
      | Fulfilled (NoData t) \<Rightarrow> catch_chat (Some t) s
      | Fulfilled (Data r c) \<Rightarrow>
          s\<lparr>messages := butlast (messages s)
               @ [userMsg,
                  \<lparr>role = Assistant, content = r, msg_context = Some (contextOrEmpty c)\<rparr>],
            isLoading := False\<rparr>)"

section \<open>sendMessage, retrieve variant\<close>

definition sendMessage_retrieve :: "RetrieveState \<Rightarrow> (RetrieveState \<times> RetrieveRequest) option" where
  "sendMessage_retrieve s =
     (if trim (input s) = [] then None
      else Some (s\<lparr>messages := messages s @ [newUserMessage (input s)]\<rparr>,
                 \<lparr>retrieve_query = input s, retrieve_k = 5\<rparr>))"

text \<open>
  \<open>resp?.response || 'Here are the results:'\<close>: the fallback stands for a response
  that is missing, \<open>null\<close> or the empty string, and for a body that is \<open>null\<close>.
\<close>

definition responseOrDefault :: "ResponseData \<Rightarrow> jsstring" where
  "responseOrDefault d =
     (case d of
        NoData t \<Rightarrow> lit ''Here are the results:''
      | Data r c \<Rightarrow>
          (case r of
             None \<Rightarrow> lit ''Here are the results:''
           | Some t \<Rightarrow> (if t = [] then lit ''Here are the results:'' else t)))"

definition contextOf :: "ResponseData \<Rightarrow> RiskContextItem list" where
  "contextOf d = (case d of NoData t \<Rightarrow> [] | Data r c \<Rightarrow> contextOrEmpty c)"

definition errorMessage_retrieve :: ChatMessage where
  "errorMessage_retrieve =
     \<lparr>role = Assistant,
      content = Some (lit ''Error: Could not connect to backend.''),
      msg_context = None\<rparr>"

definition resume_retrieve :: "Outcome \<Rightarrow> RetrieveState \<Rightarrow> RetrieveState" where
  "resume_retrieve out s =
     (case out of
        Fulfilled d \<Rightarrow>
          s\<lparr>messages := messages s
               @ [\<lparr>role = Assistant, content = Some (responseOrDefault d),
                   msg_context = Some (contextOf d)\<rparr>],
            input := []\<rparr>
      | Rejected e \<Rightarrow> s\<lparr>messages := messages s @ [errorMessage_retrieve], input := []\<rparr>)"

section \<open>The component with its requests in flight\<close>

text \<open>
  The events of the page: a change of the text field, a submission (the button or the
  Enter key call \<open>sendMessage\<close>), and the settling of the i-th request in flight. The
  chat variant renders the text field with \<open>disabled={isLoading}\<close>, so a change is not
  delivered while it loads. \<open>pending\<close> holds, for each request in flight, what its
  continuation keeps; \<open>sent\<close> is the log of the requests issued.

  Rendering is not part of the model. The chat variant renders a turn with
  \<open>message.content.replace\<close>, which raises on a content that is \<open>undefined\<close>; the
  page takes no event after that, so the states of the model behind a turn with the
  content \<open>None\<close> are states the page does not reach.
\<close>

datatype Event = Change jsstring | Submit | Settle nat Outcome

record ChatSys =
  ui :: ChatState
  pending :: "ChatMessage list"
  sent :: "ChatRequest list"

record RetrieveSys =
  rui :: RetrieveState
  rpending :: "RetrieveRequest list"
  rsent :: "RetrieveRequest list"

definition remove_nth :: "nat \<Rightarrow> 'a list \<Rightarrow> 'a list" where
  "remove_nth i xs = take i xs @ drop (Suc i) xs"

definition step_chat :: "Event \<Rightarrow> ChatSys \<Rightarrow> ChatSys" where
  "step_chat ev sys =
     (case ev of
        Change v \<Rightarrow>
          (if isLoading (ui sys) then sys else sys\<lparr>ui := (ui sys)\<lparr>input := v\<rparr>\<rparr>)
      | Submit \<Rightarrow>
          (case sendMessage_chat (ui sys) of
             None \<Rightarrow> sys
           | Some (s', userMsg, req) \<Rightarrow>
               sys\<lparr>ui := s', pending := pending sys @ [userMsg], sent := sent sys @ [req]\<rparr>)
      | Settle i out \<Rightarrow>
          (if i < length (pending sys)
           then sys\<lparr>ui := resume_chat (pending sys ! i) out (ui sys),
                    pending := remove_nth i (pending sys)\<rparr>
           else sys))"

definition step_retrieve :: "Event \<Rightarrow> RetrieveSys \<Rightarrow> RetrieveSys" where
  "step_retrieve ev sys =
     (case ev of
        Change v \<Rightarrow> sys\<lparr>rui := (rui sys)\<lparr>input := v\<rparr>\<rparr>
      | Submit \<Rightarrow>
          (case sendMessage_retrieve (rui sys) of
             None \<Rightarrow> sys
           | Some (s', req) \<Rightarrow>
               sys\<lparr>rui := s', rpending := rpending sys @ [req], rsent := rsent sys @ [req]\<rparr>)
      | Settle i out \<Rightarrow>
          (if i < length (rpending sys)
           then sys\<lparr>rui := resume_retrieve out (rui sys),
                    rpending := remove_nth i (rpending sys)\<rparr>
           else sys))"

definition mount_chat :: "InitialResponse option \<Rightarrow> ChatSys" where
  "mount_chat initialResponse = \<lparr>ui = RiskChat_chat initialResponse, pending = [], sent = []\<rparr>"

definition mount_retrieve :: "InitialResponse option \<Rightarrow> RetrieveSys" where
  "mount_retrieve initialResponse =
     \<lparr>rui = RiskChat_retrieve initialResponse, rpending = [], rsent = []\<rparr>"

fun run_chat :: "Event list \<Rightarrow> ChatSys \<Rightarrow> ChatSys" where
  "run_chat [] sys = sys"
| "run_chat (ev # evs) sys = run_chat evs (step_chat ev sys)"

fun run_retrieve :: "Event list \<Rightarrow> RetrieveSys \<Rightarrow> RetrieveSys" where
  "run_retrieve [] sys = sys"
| "run_retrieve (ev # evs) sys = run_retrieve evs (step_retrieve ev sys)"

section \<open>Properties of turn sequences\<close>

text \<open>
  \<open>answered\<close>: every user turn is directly followed by a turn of the assistant (a role
  is one of the two, so the test for two neighbours is that one of them is the
  assistant's).
\<close>

fun answered :: "ChatMessage list \<Rightarrow> bool" where
  "answered [] = True"
| "answered [m] = (role m = Assistant)"
| "answered (m # n # ms) = ((role m = Assistant \<or> role n = Assistant) \<and> answered (n # ms))"

definition userTurns :: "ChatMessage list \<Rightarrow> ChatMessage list" where
  "userTurns ms = filter (\<lambda>m. role m = User) ms"

text \<open>
  The invariant of the chat variant: while it loads, the text field is empty, one
  request is in flight, its user turn is the last turn and the turns before it are
  answered; otherwise no request is in flight and every user turn is answered.
\<close>

definition inv_chat :: "ChatSys \<Rightarrow> bool" where
  "inv_chat sys =
     (if isLoading (ui sys)
      then input (ui sys) = [] \<and> messages (ui sys) \<noteq> []
           \<and> pending sys = [last (messages (ui sys))]
           \<and> role (last (messages (ui sys))) = User
           \<and> answered (butlast (messages (ui sys)))
      else pending sys = [] \<and> answered (messages (ui sys)))"

section \<open>The page\<close>

text \<open>
  \<open>page.tsx\<close> renders the component with the constant \<open>initialResponse\<close>: a query and
  two findings. A line feed of a string is the code unit 10.
\<close>

definition finding_contested_industry :: RiskContextItem where
  "finding_contested_industry =
     \<lparr>item_content =
        lit ''Risk Finding for **IBM** (File: ibm).''
          @ [0xA]
          @ lit ''Category: Government Restrictions / CONTESTED INDUSTRY: Presence in a ''
          @ lit ''contested industry''
          @ [0xA]
          @ lit ''Priority: 4''
          @ [0xA]
          @ lit ''Finding: Organization is listed as a member of Semi.org, a semiconduct''
          @ lit ''or global industry association that facilitates collaboration and IP s''
          @ lit ''haring across the semiconductor industry. Membership includes western ''
          @ lit ''and Chinese entities across the semiconductor industry. The company in''
          @ lit ''curs risk from operations within a contested industry.''
          @ [0xA]
          @ lit ''Source: BSD''
          @ [0xA]
          @ lit ''DUNS: N/A'',
      metadata =
        \<lparr>company_name = lit ''IBM'',
         risk_category = lit ''Government Restrictions'',
         risk_subcategory = lit ''CONTESTED INDUSTRY: Presence in a contested industry'',
         priority = 4,
         doc_type = Some (lit ''RiskFinding''),
         source_name = Some (lit ''BSD''),
         duns_id = Some (lit ''N/A''),
         file_source_tag = Some (lit ''ibm''),
         business_id = Some (lit ''95c71582-c539-4089-8a2f-9592ebefabf2'')\<rparr>\<rparr>"

definition finding_sbir_grant :: RiskContextItem where
  "finding_sbir_grant =
     \<lparr>item_content =
        lit ''Risk Finding for **IBM** (File: ibm).''
          @ [0xA]
          @ lit ''Category: Subversion, Exploitation, Espionage / US SBIR grant applican''
          @ lit ''t, public discoverability''
          @ [0xA]
          @ lit ''Priority: 4''
          @ [0xA]
          @ lit ''Finding: Company is listed as a past or present applicant for a US SBI''
          @ lit ''R grant.''
          @ [0xA]
          @ lit ''Source: BSD''
          @ [0xA]
          @ lit ''DUNS: N/A'',
      metadata =
        \<lparr>company_name = lit ''IBM'',
         risk_category = lit ''Subversion, Exploitation, Espionage'',
         risk_subcategory = lit ''US SBIR grant applicant, public discoverability'',
         priority = 4,
         doc_type = Some (lit ''RiskFinding''),
         source_name = Some (lit ''BSD''),
         duns_id = Some (lit ''N/A''),
         file_source_tag = Some (lit ''ibm''),
         business_id = Some (lit ''95c71582-c539-4089-8a2f-9592ebefabf2'')\<rparr>\<rparr>"

definition initialResponse :: InitialResponse where
  "initialResponse =
     \<lparr>init_query = Some (lit ''Which companies are having the high priority risk?''),
      init_status = Some (lit ''Success''),
      init_count = Some 5,
      init_context = Some [finding_contested_industry, finding_sbir_grant]\<rparr>"

section \<open>Auxiliary facts\<close>

lemmas string_defs = lit_def dquote_def trim_def isWhiteSpace_def

lemmas mount_defs =
  mount_chat_def mount_retrieve_def RiskChat_chat_def RiskChat_retrieve_def
  initialMessages_chat_def initialMessages_retrieve_def initialContent_chat_def
  initialContent_retrieve_def greeting_def

lemmas send_defs =
  step_chat_def step_retrieve_def sendMessage_chat_def sendMessage_retrieve_def
  newUserMessage_def requestBody_def toBackend_def resume_chat_def resume_retrieve_def
  catch_chat_def errorContent_chat_def errorMessage_retrieve_def contextOrEmpty_def
  contextOf_def responseOrDefault_def remove_nth_def

text \<open>The guard \<open>!input.trim()\<close> holds for the strings of white space only.\<close>

lemma trim_Nil_iff: "trim s = [] \<longleftrightarrow> list_all isWhiteSpace s"
proof
  assume "trim s = []"
  then have "dropWhile isWhiteSpace (rev (dropWhile isWhiteSpace s)) = []"
    by (simp add: trim_def)
  then have all: "\<forall>x \<in> set (dropWhile isWhiteSpace s). isWhiteSpace x"
    by simp
  have "dropWhile isWhiteSpace s = []"
  proof (rule ccontr)
    assume ne: "dropWhile isWhiteSpace s \<noteq> []"
    then have "\<not> isWhiteSpace (hd (dropWhile isWhiteSpace s))"
      by (rule hd_dropWhile)
    moreover have "hd (dropWhile isWhiteSpace s) \<in> set (dropWhile isWhiteSpace s)"
      using ne by simp
    ultimately show False using all by blast
  qed
  then show "list_all isWhiteSpace s"
    by (simp add: list_all_iff)
next
  assume "list_all isWhiteSpace s"
  then have e: "dropWhile isWhiteSpace s = []"
    by (simp add: list_all_iff)
  show "trim s = []" unfolding trim_def e by simp
qed

lemma answered_snoc_assistant:
  "answered ws \<Longrightarrow> role a = Assistant \<Longrightarrow> answered (ws @ [a])"
  by (induction ws rule: answered.induct) auto

lemma answered_snoc_pair:
  "answered ws \<Longrightarrow> role a = Assistant \<Longrightarrow> answered (ws @ [u, a])"
  by (induction ws rule: answered.induct) auto

lemma inv_chat_mount: "inv_chat (mount_chat ir)"
  by (auto simp: inv_chat_def mount_chat_def RiskChat_chat_def initialMessages_chat_def
      split: option.splits)

lemma inv_chat_step: "inv_chat sys \<Longrightarrow> inv_chat (step_chat ev sys)"
proof (cases ev)
  case (Change v)
  then show "inv_chat sys \<Longrightarrow> ?thesis"
    by (auto simp: inv_chat_def step_chat_def)
next
  case Submit
  then show "inv_chat sys \<Longrightarrow> ?thesis"
    by (auto simp: inv_chat_def step_chat_def sendMessage_chat_def newUserMessage_def)
next
  case (Settle i out)
  then show "inv_chat sys \<Longrightarrow> ?thesis"
    by (auto simp: inv_chat_def step_chat_def resume_chat_def catch_chat_def remove_nth_def
        answered_snoc_assistant answered_snoc_pair
        split: Outcome.splits ResponseData.splits if_splits)
qed

lemma inv_chat_run: "inv_chat sys \<Longrightarrow> inv_chat (run_chat evs sys)"
  by (induction evs arbitrary: sys) (simp_all add: inv_chat_step)

lemma inv_chat_reachable: "inv_chat (run_chat evs (mount_chat ir))"
  by (simp add: inv_chat_run inv_chat_mount)

section \<open>The claims\<close>

text \<open>
  C7. Submitting an input that is empty or holds white space only does nothing, in
  both variants: \<open>sendMessage\<close> returns at its guard, so the page with its turn
  sequence, its requests in flight and its log of requests sent is what it was.
\<close>

theorem blank_submission_is_noop:
  "(list_all isWhiteSpace (input (ui csys)) \<longrightarrow>
      sendMessage_chat (ui csys) = None \<and> step_chat Submit csys = csys)
   \<and> (list_all isWhiteSpace (input (rui rsys)) \<longrightarrow>
      sendMessage_retrieve (rui rsys) = None \<and> step_retrieve Submit rsys = rsys)"
  by (simp add: step_chat_def step_retrieve_def sendMessage_chat_def sendMessage_retrieve_def
      trim_Nil_iff)

theorem blank_submission_is_noop_witness:
  "list_all isWhiteSpace (input (ui (run_chat [Change [0x20, 0x9]] (mount_chat None))))
   \<and> step_chat Submit (run_chat [Change [0x20, 0x9]] (mount_chat None))
       = run_chat [Change [0x20, 0x9]] (mount_chat None)
   \<and> sent (step_chat Submit (run_chat [Change [0x20, 0x9]] (mount_chat None))) = []
   \<and> list_all isWhiteSpace (input (rui (mount_retrieve None)))
   \<and> step_retrieve Submit (mount_retrieve None) = mount_retrieve None
   \<and> rsent (step_retrieve Submit (mount_retrieve None)) = []"
proof -
  have a: "list_all isWhiteSpace (input (ui (run_chat [Change [0x20, 0x9]] (mount_chat None))))"
    by (simp add: step_chat_def mount_defs isWhiteSpace_def)
  have b: "list_all isWhiteSpace (input (rui (mount_retrieve None)))"
    by (simp add: mount_defs)
  have c: "sent (run_chat [Change [0x20, 0x9]] (mount_chat None)) = []"
    by (simp add: step_chat_def mount_defs)
  have d: "rsent (mount_retrieve None) = []"
    by (simp add: mount_defs)
  from blank_submission_is_noop
    [of "run_chat [Change [0x20, 0x9]] (mount_chat None)" "mount_retrieve None"] a b c d
  show ?thesis by simp
qed

text \<open>
  C8. A submission of an input that is not empty after trimming appends one turn, of
  the user and with the input as typed for content, at the end of the sequence: in
  the chat variant at every state the page reaches from its mount, in the retrieve
  variant at every state.
\<close>

theorem submission_appends_user_turn:
  assumes "csys = run_chat evs (mount_chat ir)"
  shows "(trim (input (ui csys)) \<noteq> [] \<longrightarrow>
            messages (ui (step_chat Submit csys))
              = messages (ui csys)
                @ [\<lparr>role = User, content = Some (input (ui csys)), msg_context = None\<rparr>]
            \<and> length (messages (ui (step_chat Submit csys))) = Suc (length (messages (ui csys)))
            \<and> last (messages (ui (step_chat Submit csys)))
              = \<lparr>role = User, content = Some (input (ui csys)), msg_context = None\<rparr>)
       \<and> (trim (input (rui rsys)) \<noteq> [] \<longrightarrow>
            messages (rui (step_retrieve Submit rsys))
              = messages (rui rsys)
                @ [\<lparr>role = User, content = Some (input (rui rsys)), msg_context = None\<rparr>]
            \<and> length (messages (rui (step_retrieve Submit rsys)))
              = Suc (length (messages (rui rsys)))
            \<and> last (messages (rui (step_retrieve Submit rsys)))
              = \<lparr>role = User, content = Some (input (rui rsys)), msg_context = None\<rparr>)"
proof -
  have inv: "inv_chat csys"
    using assms by (simp add: inv_chat_reachable)
  have idle: "\<not> isLoading (ui csys)" if "trim (input (ui csys)) \<noteq> []"
  proof
    assume "isLoading (ui csys)"
    with inv have "input (ui csys) = []" by (simp add: inv_chat_def)
    with that show False by (simp add: trim_def)
  qed
  show ?thesis
    using idle
    by (auto simp: step_chat_def step_retrieve_def sendMessage_chat_def
        sendMessage_retrieve_def newUserMessage_def)
qed

theorem submission_appends_user_turn_witness:
  "trim (input (ui (run_chat [Change (lit ''hi'')] (mount_chat None)))) \<noteq> []
   \<and> messages (ui (step_chat Submit (run_chat [Change (lit ''hi'')] (mount_chat None))))
       = [\<lparr>role = User, content = Some (lit ''hi''), msg_context = None\<rparr>]
   \<and> trim (input (rui (run_retrieve [Change (lit ''hi'')] (mount_retrieve None)))) \<noteq> []
   \<and> messages (rui (step_retrieve Submit
         (run_retrieve [Change (lit ''hi'')] (mount_retrieve None))))
       = [greeting, \<lparr>role = User, content = Some (lit ''hi''), msg_context = None\<rparr>]"
proof -
  have a: "input (ui (run_chat [Change (lit ''hi'')] (mount_chat None))) = lit ''hi''"
    by (simp add: step_chat_def mount_defs)
  have a': "messages (ui (run_chat [Change (lit ''hi'')] (mount_chat None))) = []"
    by (simp add: step_chat_def mount_defs)
  have b: "input (rui (run_retrieve [Change (lit ''hi'')] (mount_retrieve None))) = lit ''hi''"
    by (simp add: step_retrieve_def mount_defs)
  have b': "messages (rui (run_retrieve [Change (lit ''hi'')] (mount_retrieve None))) = [greeting]"
    by (simp add: step_retrieve_def mount_retrieve_def RiskChat_retrieve_def
        initialMessages_retrieve_def)
  have c: "trim (lit ''hi'') \<noteq> []"
    by (simp add: string_defs)
  from submission_appends_user_turn
    [of "run_chat [Change (lit ''hi'')] (mount_chat None)" "[Change (lit ''hi'')]" None
      "run_retrieve [Change (lit ''hi'')] (mount_retrieve None)"]
    a a' b b' c
  show ?thesis by simp
qed

text \<open>
  C3. In the chat variant every submission that sends a request sends, as
  \<open>history\<close>, the turns before the submission in their order, the assistant's with
  the role \<open>model\<close> and the user's with the role \<open>user\<close>, and as \<open>query\<close> the input
  as typed; the turn appended by the submission is not part of the history, which is
  the image of the sequence without its new last turn.
\<close>

theorem chat_request_history:
  assumes "sendMessage_chat (ui sys) = Some (s', userMsg, req)"
  shows "sent (step_chat Submit sys) = sent sys @ [req]
       \<and> query req = input (ui sys)
       \<and> history req
           = map (\<lambda>m. \<lparr>backend_role = (if role m = Assistant then BackendModel else BackendUser),
                        backend_text = content m\<rparr>) (messages (ui sys))
       \<and> k req = 5
       \<and> userMsg = \<lparr>role = User, content = Some (input (ui sys)), msg_context = None\<rparr>
       \<and> messages s' = messages (ui sys) @ [userMsg]
       \<and> history req = map toBackend (butlast (messages s'))
       \<and> length (history req) = length (messages s') - 1"
proof -
  from assms have ok: "\<not> (trim (input (ui sys)) = [] \<or> isLoading (ui sys))"
    by (auto simp: sendMessage_chat_def split: if_splits)
  from assms ok have s': "s' = (ui sys)\<lparr>messages := messages (ui sys) @ [newUserMessage (input (ui sys))],
        input := [], isLoading := True\<rparr>"
    and u: "userMsg = newUserMessage (input (ui sys))"
    and req: "req = requestBody (ui sys)"
    by (auto simp: sendMessage_chat_def)
  have "sent (step_chat Submit sys) = sent sys @ [req]"
    using assms by (simp add: step_chat_def)
  moreover have "toBackend = (\<lambda>m. \<lparr>backend_role = (if role m = Assistant then BackendModel else BackendUser),
                        backend_text = content m\<rparr>)"
    by (rule ext) (simp add: toBackend_def)
  ultimately show ?thesis
    by (simp add: s' u req requestBody_def newUserMessage_def)
qed

theorem chat_request_history_witness:
  "sendMessage_chat (ui (run_chat
       [Change (lit ''a''), Submit, Settle 0 (Fulfilled (Data (Some (lit ''b'')) None)),
        Change (lit ''c'')] (mount_chat None))) \<noteq> None
   \<and> map role (messages (ui (run_chat
       [Change (lit ''a''), Submit, Settle 0 (Fulfilled (Data (Some (lit ''b'')) None)),
        Change (lit ''c'')] (mount_chat None)))) = [User, Assistant]
   \<and> map content (messages (ui (run_chat
       [Change (lit ''a''), Submit, Settle 0 (Fulfilled (Data (Some (lit ''b'')) None)),
        Change (lit ''c'')] (mount_chat None)))) = [Some (lit ''a''), Some (lit ''b'')]
   \<and> map history (sent (run_chat
       [Change (lit ''a''), Submit, Settle 0 (Fulfilled (Data (Some (lit ''b'')) None)),
        Change (lit ''c''), Submit] (mount_chat None)))
       = [[], [\<lparr>backend_role = BackendUser, backend_text = Some (lit ''a'')\<rparr>,
               \<lparr>backend_role = BackendModel, backend_text = Some (lit ''b'')\<rparr>]]
   \<and> map query (sent (run_chat
       [Change (lit ''a''), Submit, Settle 0 (Fulfilled (Data (Some (lit ''b'')) None)),
        Change (lit ''c''), Submit] (mount_chat None)))
       = [lit ''a'', lit ''c'']"
proof -
  define sys where "sys = run_chat
       [Change (lit ''a''), Submit, Settle 0 (Fulfilled (Data (Some (lit ''b'')) None)),
        Change (lit ''c'')] (mount_chat None)"
  have sys: "sys = \<lparr>ui = \<lparr>messages = [\<lparr>role = User, content = Some (lit ''a''), msg_context = None\<rparr>,
        \<lparr>role = Assistant, content = Some (lit ''b''), msg_context = Some []\<rparr>],
        input = lit ''c'', isLoading = False\<rparr>, pending = [],
        sent = [\<lparr>query = lit ''a'', history = [], k = 5\<rparr>]\<rparr>"
    unfolding sys_def by (simp add: send_defs mount_defs string_defs)
  have run: "run_chat
       [Change (lit ''a''), Submit, Settle 0 (Fulfilled (Data (Some (lit ''b'')) None)),
        Change (lit ''c''), Submit] (mount_chat None) = step_chat Submit sys"
    unfolding sys_def by simp
  have send: "sendMessage_chat (ui sys)
      = Some ((ui sys)\<lparr>messages := messages (ui sys) @ [newUserMessage (lit ''c'')],
                input := [], isLoading := True\<rparr>, newUserMessage (lit ''c''), requestBody (ui sys))"
    by (simp add: sys sendMessage_chat_def string_defs)
  from chat_request_history [OF send]
  have "sent (step_chat Submit sys) = sent sys @ [requestBody (ui sys)]"
    and "query (requestBody (ui sys)) = input (ui sys)"
    and "history (requestBody (ui sys))
           = map (\<lambda>m. \<lparr>backend_role = (if role m = Assistant then BackendModel else BackendUser),
                        backend_text = content m\<rparr>) (messages (ui sys))"
    by simp_all
  then have "map history (sent (step_chat Submit sys))
       = [[], [\<lparr>backend_role = BackendUser, backend_text = Some (lit ''a'')\<rparr>,
               \<lparr>backend_role = BackendModel, backend_text = Some (lit ''b'')\<rparr>]]"
    and "map query (sent (step_chat Submit sys)) = [lit ''a'', lit ''c'']"
    by (simp_all add: sys)
  moreover have "sendMessage_chat (ui sys) \<noteq> None"
    using send by simp
  moreover have "map role (messages (ui sys)) = [User, Assistant]"
    and "map content (messages (ui sys)) = [Some (lit ''a''), Some (lit ''b'')]"
    by (simp_all add: sys)
  ultimately show ?thesis
    unfolding run unfolding sys_def by simp
qed

text \<open>
  C4. When a request in flight is fulfilled, the sequence gains one turn, of the
  assistant, at its end, and the context of that turn is the context of the body, or
  the empty sequence when the body has none or has \<open>null\<close>; it is never absent. In
  the chat variant this holds at every state the page reaches from its mount, for a
  body that is not itself \<open>null\<close>; in the retrieve variant for every body.
\<close>

theorem fulfilled_request_appends_assistant_turn:
  assumes "csys = run_chat evs (mount_chat ir)"
  shows "(i < length (pending csys) \<longrightarrow>
            messages (ui (step_chat (Settle i (Fulfilled (Data r c))) csys))
              = messages (ui csys)
                @ [\<lparr>role = Assistant, content = r,
                    msg_context = Some (case c of None \<Rightarrow> [] | Some items \<Rightarrow> items)\<rparr>])
       \<and> (j < length (rpending rsys) \<longrightarrow>
            messages (rui (step_retrieve (Settle j (Fulfilled d)) rsys))
              = messages (rui rsys)
                @ [\<lparr>role = Assistant, content = Some (responseOrDefault d),
                    msg_context =
                      Some (case d of
                              NoData t \<Rightarrow> []
                            | Data r' c' \<Rightarrow> (case c' of None \<Rightarrow> [] | Some items \<Rightarrow> items))\<rparr>])"
proof -
  have inv: "inv_chat csys"
    using assms by (simp add: inv_chat_reachable)
  have chat: "messages (ui (step_chat (Settle i (Fulfilled (Data r c))) csys))
              = messages (ui csys)
                @ [\<lparr>role = Assistant, content = r,
                    msg_context = Some (case c of None \<Rightarrow> [] | Some items \<Rightarrow> items)\<rparr>]"
    if "i < length (pending csys)"
  proof -
    from inv that have p: "pending csys = [last (messages (ui csys))]"
      and ne: "messages (ui csys) \<noteq> []"
      by (auto simp: inv_chat_def split: if_splits)
    from that p have i: "i = 0" by simp
    show ?thesis
      using that ne by (simp add: step_chat_def resume_chat_def contextOrEmpty_def p i)
  qed
  have retrieve: "messages (rui (step_retrieve (Settle j (Fulfilled d)) rsys))
              = messages (rui rsys)
                @ [\<lparr>role = Assistant, content = Some (responseOrDefault d),
                    msg_context =
                      Some (case d of
                              NoData t \<Rightarrow> []
                            | Data r' c' \<Rightarrow> (case c' of None \<Rightarrow> [] | Some items \<Rightarrow> items))\<rparr>]"
    if "j < length (rpending rsys)"
    using that
    by (simp add: step_retrieve_def resume_retrieve_def contextOf_def contextOrEmpty_def
        split: ResponseData.splits option.splits)
  from chat retrieve show ?thesis by blast
qed

theorem fulfilled_request_appends_assistant_turn_witness:
  "0 < length (pending (run_chat [Change (lit ''q''), Submit] (mount_chat None)))
   \<and> messages (ui (step_chat (Settle 0 (Fulfilled (Data (Some (lit ''ok'')) None)))
        (run_chat [Change (lit ''q''), Submit] (mount_chat None))))
      = [\<lparr>role = User, content = Some (lit ''q''), msg_context = None\<rparr>,
         \<lparr>role = Assistant, content = Some (lit ''ok''), msg_context = Some []\<rparr>]
   \<and> 0 < length (rpending (run_retrieve [Change (lit ''q''), Submit] (mount_retrieve None)))
   \<and> messages (rui (step_retrieve (Settle 0 (Fulfilled (Data (Some (lit ''ok'')) None)))
        (run_retrieve [Change (lit ''q''), Submit] (mount_retrieve None))))
      = [greeting,
         \<lparr>role = User, content = Some (lit ''q''), msg_context = None\<rparr>,
         \<lparr>role = Assistant, content = Some (lit ''ok''), msg_context = Some []\<rparr>]"
proof -
  have c: "run_chat [Change (lit ''q''), Submit] (mount_chat None)
      = \<lparr>ui = \<lparr>messages = [\<lparr>role = User, content = Some (lit ''q''), msg_context = None\<rparr>],
               input = [], isLoading = True\<rparr>,
         pending = [\<lparr>role = User, content = Some (lit ''q''), msg_context = None\<rparr>],
         sent = [\<lparr>query = lit ''q'', history = [], k = 5\<rparr>]\<rparr>"
    by (simp add: send_defs mount_defs string_defs)
  have r: "run_retrieve [Change (lit ''q''), Submit] (mount_retrieve None)
      = \<lparr>rui = \<lparr>messages = [greeting,
                    \<lparr>role = User, content = Some (lit ''q''), msg_context = None\<rparr>],
                input = lit ''q''\<rparr>,
         rpending = [\<lparr>retrieve_query = lit ''q'', retrieve_k = 5\<rparr>],
         rsent = [\<lparr>retrieve_query = lit ''q'', retrieve_k = 5\<rparr>]\<rparr>"
    by (simp add: send_defs mount_defs string_defs)
  have d: "responseOrDefault (Data (Some (lit ''ok'')) None) = lit ''ok''"
    by (simp add: responseOrDefault_def lit_def)
  from fulfilled_request_appends_assistant_turn
    [of "run_chat [Change (lit ''q''), Submit] (mount_chat None)"
      "[Change (lit ''q''), Submit]" None 0 "Some (lit ''ok'')" None 0
      "run_retrieve [Change (lit ''q''), Submit] (mount_retrieve None)"
      "Data (Some (lit ''ok'')) None", unfolded c r]
  show ?thesis
    unfolding c r by (simp add: d)
qed

text \<open>
  C9. The continuation of \<open>sendMessage\<close> changes the turn sequence from its last
  element on at most. In the chat variant the sequence without its last turn stays
  as a prefix of the new sequence, on every outcome; in the retrieve variant the whole
  sequence does, and so does it over any series of events. So the turns that stood
  before the user turn of a submission stand unchanged and in their order after the
  request settles, fulfilled or rejected.
\<close>

theorem settling_preserves_earlier_turns:
  "prefix (butlast (messages s)) (messages (resume_chat userMsg out s))
   \<and> prefix (messages t) (messages (resume_retrieve out t))
   \<and> prefix (messages (rui rsys)) (messages (rui (run_retrieve evs rsys)))
   \<and> (sendMessage_chat s = Some (s1, u, req) \<longrightarrow>
        prefix (messages s) (messages (resume_chat u out s1)))
   \<and> (sendMessage_retrieve t = Some (t1, treq) \<longrightarrow>
        prefix (messages t) (messages (resume_retrieve out t1)))"
proof -
  have a: "prefix (butlast (messages s)) (messages (resume_chat userMsg out s))" for s userMsg
    by (simp add: resume_chat_def catch_chat_def split: Outcome.splits ResponseData.splits)
  have b: "prefix (messages t) (messages (resume_retrieve out' t))" for t out'
    by (simp add: resume_retrieve_def split: Outcome.splits)
  have step: "prefix (messages (rui sys)) (messages (rui (step_retrieve ev sys)))" for ev sys
    using b by (auto simp: step_retrieve_def sendMessage_retrieve_def split: Event.splits)
  have c: "prefix (messages (rui rsys)) (messages (rui (run_retrieve evs rsys)))"
  proof (induction evs arbitrary: rsys)
    case Nil
    show ?case by simp
  next
    case (Cons ev evs)
    from step [of rsys ev] Cons [of "step_retrieve ev rsys"] show ?case
      by (simp add: prefix_order.order_trans [OF step [of rsys ev]])
  qed
  have d: "prefix (messages s) (messages (resume_chat u out s1))"
    if "sendMessage_chat s = Some (s1, u, req)"
  proof -
    from that have "butlast (messages s1) = messages s"
      by (auto simp: sendMessage_chat_def split: if_splits)
    with a [of s1 u] show ?thesis by simp
  qed
  have e: "prefix (messages t) (messages (resume_retrieve out t1))"
    if "sendMessage_retrieve t = Some (t1, treq)"
  proof -
    from that have "prefix (messages t) (messages t1)"
      by (auto simp: sendMessage_retrieve_def split: if_splits)
    then show ?thesis using b [of t1 out] by (rule prefix_order.order_trans)
  qed
  from a b c d e show ?thesis by blast
qed

theorem settling_preserves_earlier_turns_witness:
  "sendMessage_chat \<lparr>messages = [greeting], input = lit ''q'', isLoading = False\<rparr>
     = Some (\<lparr>messages = [greeting, newUserMessage (lit ''q'')], input = [], isLoading = True\<rparr>,
             newUserMessage (lit ''q''),
             \<lparr>query = lit ''q'', history = [toBackend greeting], k = 5\<rparr>)
   \<and> prefix [greeting]
        (messages (resume_chat (newUserMessage (lit ''q'')) (Rejected None)
           \<lparr>messages = [greeting, newUserMessage (lit ''q'')], input = [], isLoading = True\<rparr>))
   \<and> sendMessage_retrieve \<lparr>messages = [greeting], input = lit ''q''\<rparr>
     = Some (\<lparr>messages = [greeting, newUserMessage (lit ''q'')], input = lit ''q''\<rparr>,
             \<lparr>retrieve_query = lit ''q'', retrieve_k = 5\<rparr>)
   \<and> prefix [greeting]
        (messages (resume_retrieve (Rejected None)
           \<lparr>messages = [greeting, newUserMessage (lit ''q'')], input = lit ''q''\<rparr>))"
proof -
  have c: "sendMessage_chat \<lparr>messages = [greeting], input = lit ''q'', isLoading = False\<rparr>
     = Some (\<lparr>messages = [greeting, newUserMessage (lit ''q'')], input = [], isLoading = True\<rparr>,
             newUserMessage (lit ''q''),
             \<lparr>query = lit ''q'', history = [toBackend greeting], k = 5\<rparr>)"
    by (simp add: sendMessage_chat_def requestBody_def string_defs)
  have r: "sendMessage_retrieve \<lparr>messages = [greeting], input = lit ''q''\<rparr>
     = Some (\<lparr>messages = [greeting, newUserMessage (lit ''q'')], input = lit ''q''\<rparr>,
             \<lparr>retrieve_query = lit ''q'', retrieve_k = 5\<rparr>)"
    by (simp add: sendMessage_retrieve_def string_defs)
  from settling_preserves_earlier_turns
    [of "\<lparr>messages = [greeting], input = lit ''q'', isLoading = False\<rparr>"
      "newUserMessage (lit ''q'')" "Rejected None"
      "\<lparr>messages = [greeting], input = lit ''q''\<rparr>"
      "\<lparr>rui = \<lparr>messages = [greeting], input = lit ''q''\<rparr>, rpending = [], rsent = []\<rparr>" "[]"
      "\<lparr>messages = [greeting, newUserMessage (lit ''q'')], input = [], isLoading = True\<rparr>"
      "newUserMessage (lit ''q'')"
      "\<lparr>query = lit ''q'', history = [toBackend greeting], k = 5\<rparr>"
      "\<lparr>messages = [greeting, newUserMessage (lit ''q'')], input = lit ''q''\<rparr>"
      "\<lparr>retrieve_query = lit ''q'', retrieve_k = 5\<rparr>"] c r
  show ?thesis by simp
qed

text \<open>
  C6, as amended. A seed payload with a query \<open>q\<close> that is not empty and a context that
  is not empty gives one turn of the assistant that carries the context; its content
  is \<open>Here are the initial risk findings for: "q"\<close> in the chat variant and
  \<open>Here are the high priority risks for: "q"\<close> in the retrieve variant. With no seed
  payload the chat variant starts with the empty sequence and the retrieve variant
  with one greeting turn that has no context field.
\<close>

theorem initial_turn_sequence:
  "(q \<noteq> [] \<and> c \<noteq> [] \<longrightarrow>
      messages (RiskChat_chat
        (Some \<lparr>init_query = Some q, init_status = st, init_count = n, init_context = Some c\<rparr>))
        = [\<lparr>role = Assistant,
            content = Some (lit ''Here are the initial risk findings for: '' @ dquote @ q @ dquote),
            msg_context = Some c\<rparr>]
      \<and> messages (RiskChat_retrieve
        (Some \<lparr>init_query = Some q, init_status = st, init_count = n, init_context = Some c\<rparr>))
        = [\<lparr>role = Assistant,
            content = Some (lit ''Here are the high priority risks for: '' @ dquote @ q @ dquote),
            msg_context = Some c\<rparr>])
   \<and> messages (RiskChat_chat None) = []
   \<and> messages (RiskChat_retrieve None)
       = [\<lparr>role = Assistant, content = Some (lit ''Ask a query to retrieve risk findings.''),
           msg_context = None\<rparr>]"
  by (simp add: RiskChat_chat_def RiskChat_retrieve_def initialMessages_chat_def
      initialMessages_retrieve_def initialContent_chat_def initialContent_retrieve_def
      greeting_def)

theorem initial_turn_sequence_witness:
  "lit ''Which companies are having the high priority risk?'' \<noteq> []
   \<and> [finding_contested_industry, finding_sbir_grant] \<noteq> []
   \<and> messages (RiskChat_chat (Some initialResponse))
      = [\<lparr>role = Assistant,
          content = Some (lit ''Here are the initial risk findings for: '' @ dquote
                      @ lit ''Which companies are having the high priority risk?'' @ dquote),
          msg_context = Some [finding_contested_industry, finding_sbir_grant]\<rparr>]
   \<and> messages (RiskChat_retrieve (Some initialResponse))
      = [\<lparr>role = Assistant,
          content = Some (lit ''Here are the high priority risks for: '' @ dquote
                      @ lit ''Which companies are having the high priority risk?'' @ dquote),
          msg_context = Some [finding_contested_industry, finding_sbir_grant]\<rparr>]"
proof -
  have q: "lit ''Which companies are having the high priority risk?'' \<noteq> []"
    by (simp add: lit_def)
  from initial_turn_sequence
    [of "lit ''Which companies are having the high priority risk?''"
      "[finding_contested_industry, finding_sbir_grant]" "Some (lit ''Success'')" "Some 5"] q
  show ?thesis
    unfolding initialResponse_def by simp
qed

theorem initial_turn_sequence_counterexample:
  "messages (RiskChat_retrieve
      (Some \<lparr>init_query = Some (lit ''Q''), init_status = None, init_count = None,
             init_context = Some [finding_sbir_grant]\<rparr>))
   \<noteq> [\<lparr>role = Assistant,
        content = Some (lit ''Here are the initial risk findings for: '' @ dquote
                    @ lit ''Q'' @ dquote),
        msg_context = Some [finding_sbir_grant]\<rparr>]"
  by (simp add: RiskChat_retrieve_def initialMessages_retrieve_def initialContent_retrieve_def
      lit_def dquote_def)

text \<open>
  C2, as amended. In the chat variant, at every state the page reaches from its
  mount, at most one request is in flight; while one is, a submission and a change of
  the text field leave the page as it is (no turn, no request), and when the request
  settles none is in flight. The retrieve variant has no loading state: there a
  submission of an input that is not blank is taken whatever is in flight; it appends
  a user turn and sends a request.
\<close>

theorem one_request_in_flight:
  assumes "csys = run_chat evs (mount_chat ir)"
  shows "length (pending csys) \<le> 1
       \<and> (pending csys \<noteq> [] \<longrightarrow>
            step_chat Submit csys = csys \<and> step_chat (Change v) csys = csys)
       \<and> (i < length (pending csys) \<longrightarrow> pending (step_chat (Settle i out) csys) = [])
       \<and> (trim (input (rui rsys)) \<noteq> [] \<longrightarrow>
            messages (rui (step_retrieve Submit rsys))
              = messages (rui rsys)
                @ [\<lparr>role = User, content = Some (input (rui rsys)), msg_context = None\<rparr>]
            \<and> rpending (step_retrieve Submit rsys)
              = rpending rsys @ [\<lparr>retrieve_query = input (rui rsys), retrieve_k = 5\<rparr>]
            \<and> rsent (step_retrieve Submit rsys)
              = rsent rsys @ [\<lparr>retrieve_query = input (rui rsys), retrieve_k = 5\<rparr>])"
proof -
  have inv: "inv_chat csys"
    using assms by (simp add: inv_chat_reachable)
  have one: "length (pending csys) \<le> 1"
    using inv by (simp add: inv_chat_def split: if_splits)
  have loading: "isLoading (ui csys)" if "pending csys \<noteq> []"
    using inv that by (simp add: inv_chat_def split: if_splits)
  have busy: "step_chat Submit csys = csys \<and> step_chat (Change v) csys = csys"
    if "pending csys \<noteq> []"
    using loading [OF that] by (simp add: step_chat_def sendMessage_chat_def)
  have settle: "pending (step_chat (Settle i out) csys) = []" if "i < length (pending csys)"
  proof -
    from one that have "length (pending csys) = 1" and "i = 0" by simp_all
    then show ?thesis
      by (cases "pending csys") (simp_all add: step_chat_def remove_nth_def)
  qed
  have retrieve: "messages (rui (step_retrieve Submit rsys))
              = messages (rui rsys)
                @ [\<lparr>role = User, content = Some (input (rui rsys)), msg_context = None\<rparr>]
            \<and> rpending (step_retrieve Submit rsys)
              = rpending rsys @ [\<lparr>retrieve_query = input (rui rsys), retrieve_k = 5\<rparr>]
            \<and> rsent (step_retrieve Submit rsys)
              = rsent rsys @ [\<lparr>retrieve_query = input (rui rsys), retrieve_k = 5\<rparr>]"
    if "trim (input (rui rsys)) \<noteq> []"
    using that by (simp add: step_retrieve_def sendMessage_retrieve_def newUserMessage_def)
  from one busy settle retrieve show ?thesis by blast
qed

theorem one_request_in_flight_witness:
  "pending (run_chat [Change (lit ''a''), Submit] (mount_chat None)) \<noteq> []
   \<and> length (pending (run_chat [Change (lit ''a''), Submit] (mount_chat None))) \<le> 1
   \<and> step_chat Submit (run_chat [Change (lit ''a''), Submit] (mount_chat None))
       = run_chat [Change (lit ''a''), Submit] (mount_chat None)
   \<and> step_chat (Change (lit ''b'')) (run_chat [Change (lit ''a''), Submit] (mount_chat None))
       = run_chat [Change (lit ''a''), Submit] (mount_chat None)
   \<and> pending (step_chat (Settle 0 (Rejected None))
        (run_chat [Change (lit ''a''), Submit] (mount_chat None))) = []
   \<and> trim (input (rui (run_retrieve [Change (lit ''a''), Submit] (mount_retrieve None)))) \<noteq> []
   \<and> rsent (step_retrieve Submit (run_retrieve [Change (lit ''a''), Submit] (mount_retrieve None)))
       = [\<lparr>retrieve_query = lit ''a'', retrieve_k = 5\<rparr>,
          \<lparr>retrieve_query = lit ''a'', retrieve_k = 5\<rparr>]"
proof -
  define csys where "csys = run_chat [Change (lit ''a''), Submit] (mount_chat None)"
  define rsys where "rsys = run_retrieve [Change (lit ''a''), Submit] (mount_retrieve None)"
  have c: "pending csys = [\<lparr>role = User, content = Some (lit ''a''), msg_context = None\<rparr>]"
    unfolding csys_def by (simp add: send_defs mount_defs string_defs)
  have r: "input (rui rsys) = lit ''a''"
    and r': "rsent rsys = [\<lparr>retrieve_query = lit ''a'', retrieve_k = 5\<rparr>]"
    unfolding rsys_def by (simp_all add: send_defs mount_defs string_defs)
  have t: "trim (lit ''a'') \<noteq> []"
    by (simp add: string_defs)
  from one_request_in_flight
    [of csys "[Change (lit ''a''), Submit]" None "lit ''b''" 0 "Rejected None" rsys]
  have "pending csys \<noteq> [] \<and> length (pending csys) \<le> 1
      \<and> step_chat Submit csys = csys \<and> step_chat (Change (lit ''b'')) csys = csys
      \<and> pending (step_chat (Settle 0 (Rejected None)) csys) = []
      \<and> trim (input (rui rsys)) \<noteq> []
      \<and> rsent (step_retrieve Submit rsys)
          = [\<lparr>retrieve_query = lit ''a'', retrieve_k = 5\<rparr>,
             \<lparr>retrieve_query = lit ''a'', retrieve_k = 5\<rparr>]"
    using c r r' t by (simp add: csys_def)
  then show ?thesis
    unfolding csys_def rsys_def .
qed

theorem one_request_in_flight_counterexample:
  "length (rpending (run_retrieve [Change (lit ''a''), Submit] (mount_retrieve None))) = 1
   \<and> length (rpending (run_retrieve [Change (lit ''a''), Submit, Submit]
        (mount_retrieve None))) = 2
   \<and> length (rsent (run_retrieve [Change (lit ''a''), Submit, Submit]
        (mount_retrieve None))) = 2
   \<and> messages (rui (run_retrieve [Change (lit ''a''), Submit] (mount_retrieve None)))
       = [greeting, newUserMessage (lit ''a'')]
   \<and> messages (rui (run_retrieve [Change (lit ''a''), Submit, Submit] (mount_retrieve None)))
       = [greeting, newUserMessage (lit ''a''), newUserMessage (lit ''a'')]"
  by (simp add: step_retrieve_def sendMessage_retrieve_def mount_retrieve_def
      RiskChat_retrieve_def initialMessages_retrieve_def string_defs)

text \<open>
  C1, as amended. A rejected request leaves one more turn of the assistant than
  before the submission, with no context field. In the retrieve variant the turn is
  appended behind the user turn and its content is the fixed text
  \<open>Error: Could not connect to backend.\<close>. In the chat variant the turn takes the place
  of the last turn, which is the user turn of the submission (the optimistic update is
  rolled back), and its content is
  \<open>Sorry, an error occurred while processing your query. (Error: e)\<close> for the thrown
  value \<open>e\<close>, \<open>Unknown\<close> when there is none. Afterwards every user turn of the sequence
  is directly followed by a turn of the assistant: in the chat variant at every state
  the page reaches from its mount, in the retrieve variant when the user turn of the
  request was the last turn and the turns before it were answered.
\<close>

theorem rejected_request_turns:
  assumes "csys = run_chat evs (mount_chat ir)"
  shows "(i < length (pending csys) \<longrightarrow>
            role (last (messages (ui csys))) = User
            \<and> messages (ui (step_chat (Settle i (Rejected e)) csys))
              = butlast (messages (ui csys))
                @ [\<lparr>role = Assistant,
                    content = Some
                      (lit ''Sorry, an error occurred while processing your query. (Error: ''
                        @ (case e of None \<Rightarrow> lit ''Unknown'' | Some t \<Rightarrow> t) @ lit '')''),
                    msg_context = None\<rparr>]
            \<and> answered (messages (ui (step_chat (Settle i (Rejected e)) csys))))
       \<and> (j < length (rpending rsys) \<longrightarrow>
            messages (rui (step_retrieve (Settle j (Rejected e)) rsys))
              = messages (rui rsys)
                @ [\<lparr>role = Assistant,
                    content = Some (lit ''Error: Could not connect to backend.''),
                    msg_context = None\<rparr>])
       \<and> (j < length (rpending rsys) \<and> messages (rui rsys) = ws @ [u] \<and> answered ws \<longrightarrow>
            answered (messages (rui (step_retrieve (Settle j (Rejected e)) rsys))))"
proof -
  have inv: "inv_chat csys"
    using assms by (simp add: inv_chat_reachable)
  have chat: "role (last (messages (ui csys))) = User
            \<and> messages (ui (step_chat (Settle i (Rejected e)) csys))
              = butlast (messages (ui csys))
                @ [\<lparr>role = Assistant,
                    content = Some
                      (lit ''Sorry, an error occurred while processing your query. (Error: ''
                        @ (case e of None \<Rightarrow> lit ''Unknown'' | Some t \<Rightarrow> t) @ lit '')''),
                    msg_context = None\<rparr>]
            \<and> answered (messages (ui (step_chat (Settle i (Rejected e)) csys)))"
    if "i < length (pending csys)"
  proof -
    from inv that have u: "role (last (messages (ui csys))) = User"
      and a: "answered (butlast (messages (ui csys)))"
      by (auto simp: inv_chat_def split: if_splits)
    have m: "messages (ui (step_chat (Settle i (Rejected e)) csys))
              = butlast (messages (ui csys))
                @ [\<lparr>role = Assistant,
                    content = Some
                      (lit ''Sorry, an error occurred while processing your query. (Error: ''
                        @ (case e of None \<Rightarrow> lit ''Unknown'' | Some t \<Rightarrow> t) @ lit '')''),
                    msg_context = None\<rparr>]"
      using that
      by (simp add: step_chat_def resume_chat_def catch_chat_def errorContent_chat_def)
    from a have "answered (messages (ui (step_chat (Settle i (Rejected e)) csys)))"
      unfolding m by (rule answered_snoc_assistant) simp
    with u m show ?thesis by blast
  qed
  have retrieve: "messages (rui (step_retrieve (Settle j (Rejected e)) rsys))
              = messages (rui rsys)
                @ [\<lparr>role = Assistant,
                    content = Some (lit ''Error: Could not connect to backend.''),
                    msg_context = None\<rparr>]"
    if "j < length (rpending rsys)"
    using that by (simp add: step_retrieve_def resume_retrieve_def errorMessage_retrieve_def)
  have paired: "answered (messages (rui (step_retrieve (Settle j (Rejected e)) rsys)))"
    if "j < length (rpending rsys)" and "messages (rui rsys) = ws @ [u]" and "answered ws"
  proof -
    from that(3) have "answered (ws @ [u, \<lparr>role = Assistant,
                    content = Some (lit ''Error: Could not connect to backend.''),
                    msg_context = None\<rparr>])"
      by (rule answered_snoc_pair) simp
    then show ?thesis
      by (simp add: retrieve [OF that(1)] that(2))
  qed
  from chat retrieve paired show ?thesis by blast
qed

theorem rejected_request_turns_witness:
  "0 < length (pending (run_chat [Change (lit ''c''), Submit] (mount_chat None)))
   \<and> messages (ui (run_chat [Change (lit ''c''), Submit] (mount_chat None)))
       = [\<lparr>role = User, content = Some (lit ''c''), msg_context = None\<rparr>]
   \<and> messages (ui (step_chat (Settle 0 (Rejected None))
         (run_chat [Change (lit ''c''), Submit] (mount_chat None))))
       = [\<lparr>role = Assistant,
           content = Some
             (lit ''Sorry, an error occurred while processing your query. (Error: ''
               @ lit ''Unknown'' @ lit '')''),
           msg_context = None\<rparr>]
   \<and> answered (messages (ui (step_chat (Settle 0 (Rejected None))
         (run_chat [Change (lit ''c''), Submit] (mount_chat None)))))
   \<and> 0 < length (rpending (run_retrieve [Change (lit ''c''), Submit] (mount_retrieve None)))
   \<and> answered [greeting]
   \<and> messages (rui (step_retrieve (Settle 0 (Rejected None))
         (run_retrieve [Change (lit ''c''), Submit] (mount_retrieve None))))
       = [greeting,
          \<lparr>role = User, content = Some (lit ''c''), msg_context = None\<rparr>,
          \<lparr>role = Assistant, content = Some (lit ''Error: Could not connect to backend.''),
            msg_context = None\<rparr>]
   \<and> answered (messages (rui (step_retrieve (Settle 0 (Rejected None))
         (run_retrieve [Change (lit ''c''), Submit] (mount_retrieve None)))))"
proof -
  define csys where "csys = run_chat [Change (lit ''c''), Submit] (mount_chat None)"
  define rsys where "rsys = run_retrieve [Change (lit ''c''), Submit] (mount_retrieve None)"
  have c: "pending csys = [\<lparr>role = User, content = Some (lit ''c''), msg_context = None\<rparr>]"
    and c': "messages (ui csys) = [\<lparr>role = User, content = Some (lit ''c''), msg_context = None\<rparr>]"
    unfolding csys_def by (simp_all add: send_defs mount_defs string_defs)
  have r: "rpending rsys = [\<lparr>retrieve_query = lit ''c'', retrieve_k = 5\<rparr>]"
    and r': "messages (rui rsys)
       = [greeting] @ [\<lparr>role = User, content = Some (lit ''c''), msg_context = None\<rparr>]"
    unfolding rsys_def
    by (simp_all add: step_retrieve_def sendMessage_retrieve_def newUserMessage_def
        mount_retrieve_def RiskChat_retrieve_def initialMessages_retrieve_def string_defs)
  have g: "answered [greeting]"
    by (simp add: greeting_def)
  from rejected_request_turns
    [of csys "[Change (lit ''c''), Submit]" None 0 None 0 rsys "[greeting]"
      "\<lparr>role = User, content = Some (lit ''c''), msg_context = None\<rparr>"]
  have "0 < length (pending csys)
   \<and> messages (ui csys) = [\<lparr>role = User, content = Some (lit ''c''), msg_context = None\<rparr>]
   \<and> messages (ui (step_chat (Settle 0 (Rejected None)) csys))
       = [\<lparr>role = Assistant,
           content = Some
             (lit ''Sorry, an error occurred while processing your query. (Error: ''
               @ lit ''Unknown'' @ lit '')''),
           msg_context = None\<rparr>]
   \<and> answered (messages (ui (step_chat (Settle 0 (Rejected None)) csys)))
   \<and> 0 < length (rpending rsys)
   \<and> answered [greeting]
   \<and> messages (rui (step_retrieve (Settle 0 (Rejected None)) rsys))
       = [greeting,
          \<lparr>role = User, content = Some (lit ''c''), msg_context = None\<rparr>,
          \<lparr>role = Assistant, content = Some (lit ''Error: Could not connect to backend.''),
            msg_context = None\<rparr>]
   \<and> answered (messages (rui (step_retrieve (Settle 0 (Rejected None)) rsys)))"
    using c c' r r' g by (simp add: csys_def)
  then show ?thesis
    unfolding csys_def rsys_def .
qed

theorem rejected_request_turns_counterexample:
  "messages (ui (run_chat [Change (lit ''c''), Submit] (mount_chat None)))
     = [\<lparr>role = User, content = Some (lit ''c''), msg_context = None\<rparr>]
   \<and> userTurns (messages (ui (run_chat
        [Change (lit ''c''), Submit, Settle 0 (Rejected (Some (lit ''AxiosError: Network Error'')))]
        (mount_chat None)))) = []
   \<and> map content (messages (ui (run_chat
        [Change (lit ''c''), Submit, Settle 0 (Rejected (Some (lit ''AxiosError: Network Error'')))]
        (mount_chat None))))
      = [Some (lit (''Sorry, an error occurred while processing your query. ''
                  @ ''(Error: AxiosError: Network Error)''))]
   \<and> map content (messages (ui (run_chat
        [Change (lit ''c''), Submit,
         Settle 0 (Rejected (Some (lit ''AxiosError: Request failed with status code 500'')))]
        (mount_chat None))))
      = [Some (lit (''Sorry, an error occurred while processing your query. ''
                  @ ''(Error: AxiosError: Request failed with status code 500)''))]"
  by (simp add: send_defs mount_defs string_defs userTurns_def)

text \<open>
  C5, as amended. A rejected request (a network failure, a status outside 2xx) takes
  the failure path in both variants, and so does, in the chat variant, a fulfilled
  request whose body is \<open>null\<close> or \<open>undefined\<close>, since reading its \<open>response\<close>
  raises. In the retrieve variant a fulfilled request whose body has no \<open>response\<close>,
  or has the empty string there, or is itself \<open>null\<close>, is not a failure: a turn of
  the assistant with the content \<open>Here are the results:\<close> and the context of the
  body is appended. A body with a response (in the retrieve variant, one that is not
  the empty string) gives a turn of the assistant with that response for content.
\<close>

theorem outcome_of_request:
  assumes "csys = run_chat evs (mount_chat ir)"
  shows "(i < length (pending csys) \<longrightarrow>
            messages (ui (step_chat (Settle i (Rejected e)) csys))
              = butlast (messages (ui csys))
                @ [\<lparr>role = Assistant, content = Some (errorContent_chat e), msg_context = None\<rparr>]
            \<and> messages (ui (step_chat (Settle i (Fulfilled (NoData t))) csys))
              = butlast (messages (ui csys))
                @ [\<lparr>role = Assistant, content = Some (errorContent_chat (Some t)),
                    msg_context = None\<rparr>]
            \<and> messages (ui (step_chat (Settle i (Fulfilled (Data (Some txt) c))) csys))
              = messages (ui csys)
                @ [\<lparr>role = Assistant, content = Some txt,
                    msg_context = Some (case c of None \<Rightarrow> [] | Some items \<Rightarrow> items)\<rparr>])
       \<and> (j < length (rpending rsys) \<longrightarrow>
            messages (rui (step_retrieve (Settle j (Rejected e)) rsys))
              = messages (rui rsys)
                @ [\<lparr>role = Assistant,
                    content = Some (lit ''Error: Could not connect to backend.''),
                    msg_context = None\<rparr>]
            \<and> messages (rui (step_retrieve (Settle j (Fulfilled (Data None c))) rsys))
              = messages (rui rsys)
                @ [\<lparr>role = Assistant, content = Some (lit ''Here are the results:''),
                    msg_context = Some (case c of None \<Rightarrow> [] | Some items \<Rightarrow> items)\<rparr>]
            \<and> messages (rui (step_retrieve (Settle j (Fulfilled (Data (Some []) c))) rsys))
              = messages (rui rsys)
                @ [\<lparr>role = Assistant, content = Some (lit ''Here are the results:''),
                    msg_context = Some (case c of None \<Rightarrow> [] | Some items \<Rightarrow> items)\<rparr>]
            \<and> messages (rui (step_retrieve (Settle j (Fulfilled (NoData t))) rsys))
              = messages (rui rsys)
                @ [\<lparr>role = Assistant, content = Some (lit ''Here are the results:''),
                    msg_context = Some []\<rparr>]
            \<and> (txt \<noteq> [] \<longrightarrow>
                 messages (rui (step_retrieve (Settle j (Fulfilled (Data (Some txt) c))) rsys))
                   = messages (rui rsys)
                     @ [\<lparr>role = Assistant, content = Some txt,
                         msg_context = Some (case c of None \<Rightarrow> [] | Some items \<Rightarrow> items)\<rparr>]))"
proof -
  have inv: "inv_chat csys"
    using assms by (simp add: inv_chat_reachable)
  have chat: "messages (ui (step_chat (Settle i (Rejected e)) csys))
              = butlast (messages (ui csys))
                @ [\<lparr>role = Assistant, content = Some (errorContent_chat e), msg_context = None\<rparr>]
            \<and> messages (ui (step_chat (Settle i (Fulfilled (NoData t))) csys))
              = butlast (messages (ui csys))
                @ [\<lparr>role = Assistant, content = Some (errorContent_chat (Some t)),
                    msg_context = None\<rparr>]
            \<and> messages (ui (step_chat (Settle i (Fulfilled (Data (Some txt) c))) csys))
              = messages (ui csys)
                @ [\<lparr>role = Assistant, content = Some txt,
                    msg_context = Some (case c of None \<Rightarrow> [] | Some items \<Rightarrow> items)\<rparr>]"
    if "i < length (pending csys)"
  proof -
    from inv that have p: "pending csys = [last (messages (ui csys))]"
      and ne: "messages (ui csys) \<noteq> []"
      by (auto simp: inv_chat_def split: if_splits)
    from that p have i: "i = 0" by simp
    show ?thesis
      using that ne
      by (simp add: step_chat_def resume_chat_def catch_chat_def contextOrEmpty_def p i)
  qed
  have retrieve: "messages (rui (step_retrieve (Settle j (Rejected e)) rsys))
              = messages (rui rsys)
                @ [\<lparr>role = Assistant,
                    content = Some (lit ''Error: Could not connect to backend.''),
                    msg_context = None\<rparr>]
            \<and> messages (rui (step_retrieve (Settle j (Fulfilled (Data None c))) rsys))
              = messages (rui rsys)
                @ [\<lparr>role = Assistant, content = Some (lit ''Here are the results:''),
                    msg_context = Some (case c of None \<Rightarrow> [] | Some items \<Rightarrow> items)\<rparr>]
            \<and> messages (rui (step_retrieve (Settle j (Fulfilled (Data (Some []) c))) rsys))
              = messages (rui rsys)
                @ [\<lparr>role = Assistant, content = Some (lit ''Here are the results:''),
                    msg_context = Some (case c of None \<Rightarrow> [] | Some items \<Rightarrow> items)\<rparr>]
            \<and> messages (rui (step_retrieve (Settle j (Fulfilled (NoData t))) rsys))
              = messages (rui rsys)
                @ [\<lparr>role = Assistant, content = Some (lit ''Here are the results:''),
                    msg_context = Some []\<rparr>]
            \<and> (txt \<noteq> [] \<longrightarrow>
                 messages (rui (step_retrieve (Settle j (Fulfilled (Data (Some txt) c))) rsys))
                   = messages (rui rsys)
                     @ [\<lparr>role = Assistant, content = Some txt,
                         msg_context = Some (case c of None \<Rightarrow> [] | Some items \<Rightarrow> items)\<rparr>])"
    if "j < length (rpending rsys)"
    using that
    by (simp add: step_retrieve_def resume_retrieve_def errorMessage_retrieve_def
        responseOrDefault_def contextOf_def contextOrEmpty_def)
  from chat retrieve show ?thesis by blast
qed

theorem outcome_of_request_witness:
  "0 < length (pending (run_chat [Change (lit ''q''), Submit] (mount_chat None)))
   \<and> messages (ui (step_chat (Settle 0 (Rejected (Some (lit ''AxiosError: Network Error''))))
        (run_chat [Change (lit ''q''), Submit] (mount_chat None))))
      = [\<lparr>role = Assistant,
          content = Some (errorContent_chat (Some (lit ''AxiosError: Network Error''))),
          msg_context = None\<rparr>]
   \<and> messages (ui (step_chat (Settle 0 (Fulfilled (Data (Some (lit ''ok'')) None)))
        (run_chat [Change (lit ''q''), Submit] (mount_chat None))))
      = [\<lparr>role = User, content = Some (lit ''q''), msg_context = None\<rparr>,
         \<lparr>role = Assistant, content = Some (lit ''ok''), msg_context = Some []\<rparr>]
   \<and> 0 < length (rpending (run_retrieve [Change (lit ''q''), Submit] (mount_retrieve None)))
   \<and> messages (rui (step_retrieve (Settle 0 (Fulfilled (Data None (Some [finding_sbir_grant]))))
        (run_retrieve [Change (lit ''q''), Submit] (mount_retrieve None))))
      = [greeting,
         \<lparr>role = User, content = Some (lit ''q''), msg_context = None\<rparr>,
         \<lparr>role = Assistant, content = Some (lit ''Here are the results:''),
           msg_context = Some [finding_sbir_grant]\<rparr>]
   \<and> messages (rui (step_retrieve (Settle 0 (Fulfilled (Data (Some []) (Some [finding_sbir_grant]))))
        (run_retrieve [Change (lit ''q''), Submit] (mount_retrieve None))))
      = [greeting,
         \<lparr>role = User, content = Some (lit ''q''), msg_context = None\<rparr>,
         \<lparr>role = Assistant, content = Some (lit ''Here are the results:''),
           msg_context = Some [finding_sbir_grant]\<rparr>]
   \<and> lit ''ok'' \<noteq> []
   \<and> messages (rui (step_retrieve
        (Settle 0 (Fulfilled (Data (Some (lit ''ok'')) (Some [finding_sbir_grant]))))
        (run_retrieve [Change (lit ''q''), Submit] (mount_retrieve None))))
      = [greeting,
         \<lparr>role = User, content = Some (lit ''q''), msg_context = None\<rparr>,
         \<lparr>role = Assistant, content = Some (lit ''ok''),
           msg_context = Some [finding_sbir_grant]\<rparr>]"
proof -
  define csys where "csys = run_chat [Change (lit ''q''), Submit] (mount_chat None)"
  define rsys where "rsys = run_retrieve [Change (lit ''q''), Submit] (mount_retrieve None)"
  have c: "pending csys = [\<lparr>role = User, content = Some (lit ''q''), msg_context = None\<rparr>]"
    and c': "messages (ui csys) = [\<lparr>role = User, content = Some (lit ''q''), msg_context = None\<rparr>]"
    unfolding csys_def by (simp_all add: send_defs mount_defs string_defs)
  have r: "rpending rsys = [\<lparr>retrieve_query = lit ''q'', retrieve_k = 5\<rparr>]"
    and r': "messages (rui rsys)
       = [greeting, \<lparr>role = User, content = Some (lit ''q''), msg_context = None\<rparr>]"
    unfolding rsys_def
    by (simp_all add: step_retrieve_def sendMessage_retrieve_def newUserMessage_def
        mount_retrieve_def RiskChat_retrieve_def initialMessages_retrieve_def string_defs)
  have ok: "lit ''ok'' \<noteq> []"
    by (simp add: lit_def)
  from outcome_of_request
    [of csys "[Change (lit ''q''), Submit]" None 0 "Some (lit ''AxiosError: Network Error'')"
      "[]" "lit ''ok''" None 0 rsys]
  have chat: "0 < length (pending csys)
   \<and> messages (ui (step_chat (Settle 0 (Rejected (Some (lit ''AxiosError: Network Error'')))) csys))
      = [\<lparr>role = Assistant,
          content = Some (errorContent_chat (Some (lit ''AxiosError: Network Error''))),
          msg_context = None\<rparr>]
   \<and> messages (ui (step_chat (Settle 0 (Fulfilled (Data (Some (lit ''ok'')) None))) csys))
      = [\<lparr>role = User, content = Some (lit ''q''), msg_context = None\<rparr>,
         \<lparr>role = Assistant, content = Some (lit ''ok''), msg_context = Some []\<rparr>]"
    using c c' by (simp add: csys_def)
  from outcome_of_request
    [of csys "[Change (lit ''q''), Submit]" None 0 None
      "[]" "lit ''ok''" "Some [finding_sbir_grant]" 0 rsys]
  have retrieve: "0 < length (rpending rsys)
   \<and> messages (rui (step_retrieve (Settle 0 (Fulfilled (Data None (Some [finding_sbir_grant])))) rsys))
      = [greeting,
         \<lparr>role = User, content = Some (lit ''q''), msg_context = None\<rparr>,
         \<lparr>role = Assistant, content = Some (lit ''Here are the results:''),
           msg_context = Some [finding_sbir_grant]\<rparr>]
   \<and> messages (rui (step_retrieve (Settle 0 (Fulfilled (Data (Some []) (Some [finding_sbir_grant])))) rsys))
      = [greeting,
         \<lparr>role = User, content = Some (lit ''q''), msg_context = None\<rparr>,
         \<lparr>role = Assistant, content = Some (lit ''Here are the results:''),
           msg_context = Some [finding_sbir_grant]\<rparr>]
   \<and> messages (rui (step_retrieve
        (Settle 0 (Fulfilled (Data (Some (lit ''ok'')) (Some [finding_sbir_grant])))) rsys))
      = [greeting,
         \<lparr>role = User, content = Some (lit ''q''), msg_context = None\<rparr>,
         \<lparr>role = Assistant, content = Some (lit ''ok''),
           msg_context = Some [finding_sbir_grant]\<rparr>]"
    using r r' ok by (simp add: csys_def)
  from chat retrieve ok show ?thesis
    unfolding csys_def rsys_def by blast
qed

theorem outcome_of_request_counterexample:
  "messages (rui (run_retrieve
      [Change (lit ''q''), Submit, Settle 0 (Fulfilled (Data None None))] (mount_retrieve None)))
     = [greeting,
        \<lparr>role = User, content = Some (lit ''q''), msg_context = None\<rparr>,
        \<lparr>role = Assistant, content = Some (lit ''Here are the results:''),
          msg_context = Some []\<rparr>]
   \<and> messages (rui (run_retrieve
      [Change (lit ''q''), Submit, Settle 0 (Rejected None)] (mount_retrieve None)))
     = [greeting,
        \<lparr>role = User, content = Some (lit ''q''), msg_context = None\<rparr>,
        \<lparr>role = Assistant, content = Some (lit ''Error: Could not connect to backend.''),
          msg_context = None\<rparr>]"
  by (simp add: send_defs mount_retrieve_def RiskChat_retrieve_def initialMessages_retrieve_def
      trim_def isWhiteSpace_def lit_def)

text \<open>
  C10, as amended. When the request of a submission settles, the input buffer is the
  empty string, on every outcome and in both variants: the chat variant clears it at
  the submission and takes no change of the text field while it loads, the retrieve
  variant clears it when the request settles. The submitted text is the content of
  the user turn appended at the submission. That turn is still in the sequence after
  the request settles, except on the failure path of the chat variant, which puts
  the error turn in its place.
\<close>

theorem input_cleared_when_settled:
  assumes "csys = run_chat evs (mount_chat ir)"
  shows "(trim (input (ui csys)) \<noteq> [] \<longrightarrow>
            input (ui (step_chat Submit csys)) = []
            \<and> last (messages (ui (step_chat Submit csys)))
              = \<lparr>role = User, content = Some (input (ui csys)), msg_context = None\<rparr>)
       \<and> (i < length (pending csys) \<longrightarrow>
            input (ui (step_chat (Settle i out) csys)) = []
            \<and> prefix (messages (ui csys))
                (messages (ui (step_chat (Settle i (Fulfilled (Data r c))) csys)))
            \<and> length (messages (ui (step_chat (Settle i (Rejected e)) csys)))
              = length (messages (ui csys))
            \<and> butlast (messages (ui (step_chat (Settle i (Rejected e)) csys)))
              = butlast (messages (ui csys))
            \<and> role (last (messages (ui (step_chat (Settle i (Rejected e)) csys)))) = Assistant)
       \<and> (trim (input (rui rsys)) \<noteq> [] \<longrightarrow>
            last (messages (rui (step_retrieve Submit rsys)))
              = \<lparr>role = User, content = Some (input (rui rsys)), msg_context = None\<rparr>)
       \<and> (j < length (rpending rsys) \<longrightarrow>
            input (rui (step_retrieve (Settle j out) rsys)) = []
            \<and> prefix (messages (rui rsys))
                (messages (rui (step_retrieve (Settle j out) rsys))))"
proof -
  have inv: "inv_chat csys"
    using assms by (simp add: inv_chat_reachable)
  have idle: "\<not> isLoading (ui csys)" if "trim (input (ui csys)) \<noteq> []"
  proof
    assume "isLoading (ui csys)"
    with inv have "input (ui csys) = []" by (simp add: inv_chat_def)
    with that show False by (simp add: trim_def)
  qed
  have submit: "input (ui (step_chat Submit csys)) = []
            \<and> last (messages (ui (step_chat Submit csys)))
              = \<lparr>role = User, content = Some (input (ui csys)), msg_context = None\<rparr>"
    if "trim (input (ui csys)) \<noteq> []"
    using that idle [OF that]
    by (simp add: step_chat_def sendMessage_chat_def newUserMessage_def)
  have settle: "input (ui (step_chat (Settle i out) csys)) = []
            \<and> prefix (messages (ui csys))
                (messages (ui (step_chat (Settle i (Fulfilled (Data r c))) csys)))
            \<and> length (messages (ui (step_chat (Settle i (Rejected e)) csys)))
              = length (messages (ui csys))
            \<and> butlast (messages (ui (step_chat (Settle i (Rejected e)) csys)))
              = butlast (messages (ui csys))
            \<and> role (last (messages (ui (step_chat (Settle i (Rejected e)) csys)))) = Assistant"
    if "i < length (pending csys)"
  proof -
    from inv that have p: "pending csys = [last (messages (ui csys))]"
      and ne: "messages (ui csys) \<noteq> []"
      and inp: "input (ui csys) = []"
      by (auto simp: inv_chat_def split: if_splits)
    from that p have i: "i = 0" by simp
    have "input (ui (step_chat (Settle i out) csys)) = []"
      using that inp
      by (simp add: step_chat_def resume_chat_def catch_chat_def
          split: Outcome.splits ResponseData.splits)
    moreover have "messages (ui (step_chat (Settle i (Fulfilled (Data r c))) csys))
        = messages (ui csys)
          @ [\<lparr>role = Assistant, content = r, msg_context = Some (contextOrEmpty c)\<rparr>]"
      using that ne by (simp add: step_chat_def resume_chat_def p i)
    moreover have "messages (ui (step_chat (Settle i (Rejected e)) csys))
        = butlast (messages (ui csys))
          @ [\<lparr>role = Assistant, content = Some (errorContent_chat e), msg_context = None\<rparr>]"
      using that by (simp add: step_chat_def resume_chat_def catch_chat_def)
    ultimately show ?thesis
      using ne by simp
  qed
  have rsubmit: "last (messages (rui (step_retrieve Submit rsys)))
              = \<lparr>role = User, content = Some (input (rui rsys)), msg_context = None\<rparr>"
    if "trim (input (rui rsys)) \<noteq> []"
    using that by (simp add: step_retrieve_def sendMessage_retrieve_def newUserMessage_def)
  have rsettle: "input (rui (step_retrieve (Settle j out) rsys)) = []
            \<and> prefix (messages (rui rsys))
                (messages (rui (step_retrieve (Settle j out) rsys)))"
    if "j < length (rpending rsys)"
    using that by (simp add: step_retrieve_def resume_retrieve_def split: Outcome.splits)
  from submit settle rsubmit rsettle show ?thesis by blast
qed

theorem input_cleared_when_settled_witness:
  "trim (input (ui (run_chat [Change (lit ''hello'')] (mount_chat None)))) \<noteq> []
   \<and> input (ui (run_chat [Change (lit ''hello''), Submit] (mount_chat None))) = []
   \<and> last (messages (ui (run_chat [Change (lit ''hello''), Submit] (mount_chat None))))
       = \<lparr>role = User, content = Some (lit ''hello''), msg_context = None\<rparr>
   \<and> 0 < length (pending (run_chat [Change (lit ''hello''), Submit] (mount_chat None)))
   \<and> input (ui (step_chat (Settle 0 (Fulfilled (Data (Some (lit ''ok'')) None)))
        (run_chat [Change (lit ''hello''), Submit] (mount_chat None)))) = []
   \<and> trim (input (rui (run_retrieve [Change (lit ''hello'')] (mount_retrieve None)))) \<noteq> []
   \<and> 0 < length (rpending (run_retrieve [Change (lit ''hello''), Submit] (mount_retrieve None)))
   \<and> input (rui (run_retrieve [Change (lit ''hello''), Submit] (mount_retrieve None)))
       = lit ''hello''
   \<and> input (rui (step_retrieve (Settle 0 (Rejected None))
        (run_retrieve [Change (lit ''hello''), Submit] (mount_retrieve None)))) = []"
proof -
  define c0 where "c0 = run_chat [Change (lit ''hello'')] (mount_chat None)"
  define c1 where "c1 = run_chat [Change (lit ''hello''), Submit] (mount_chat None)"
  define r0 where "r0 = run_retrieve [Change (lit ''hello'')] (mount_retrieve None)"
  define r1 where "r1 = run_retrieve [Change (lit ''hello''), Submit] (mount_retrieve None)"
  have t: "trim (lit ''hello'') \<noteq> []"
    by (simp add: string_defs)
  have c0: "input (ui c0) = lit ''hello''"
    unfolding c0_def by (simp add: step_chat_def mount_defs)
  have c01: "c1 = step_chat Submit c0"
    unfolding c0_def c1_def by simp
  have c1: "pending c1 = [\<lparr>role = User, content = Some (lit ''hello''), msg_context = None\<rparr>]"
    unfolding c1_def by (simp add: send_defs mount_defs string_defs)
  have r0: "input (rui r0) = lit ''hello''"
    unfolding r0_def by (simp add: step_retrieve_def mount_defs)
  have r1: "rpending r1 = [\<lparr>retrieve_query = lit ''hello'', retrieve_k = 5\<rparr>]"
    and r1': "input (rui r1) = lit ''hello''"
    unfolding r1_def by (simp_all add: send_defs mount_defs string_defs)
  from input_cleared_when_settled [of c0 "[Change (lit ''hello'')]" None 0 "Rejected None" None None None r0 0]
  have a: "input (ui c1) = []
     \<and> last (messages (ui c1)) = \<lparr>role = User, content = Some (lit ''hello''), msg_context = None\<rparr>"
    using c0 t by (simp add: c01 c0_def)
  from input_cleared_when_settled
    [of c1 "[Change (lit ''hello''), Submit]" None 0 "Fulfilled (Data (Some (lit ''ok'')) None)"
      None None None r1 0]
  have b: "input (ui (step_chat (Settle 0 (Fulfilled (Data (Some (lit ''ok'')) None))) c1)) = []"
    using c1 by (simp add: c1_def)
  from input_cleared_when_settled
    [of c1 "[Change (lit ''hello''), Submit]" None 0 "Rejected None" None None None r1 0]
  have d: "input (rui (step_retrieve (Settle 0 (Rejected None)) r1)) = []"
    using r1 by (simp add: c1_def)
  have "trim (input (ui c0)) \<noteq> [] \<and> input (ui c1) = []
     \<and> last (messages (ui c1)) = \<lparr>role = User, content = Some (lit ''hello''), msg_context = None\<rparr>
     \<and> 0 < length (pending c1)
     \<and> input (ui (step_chat (Settle 0 (Fulfilled (Data (Some (lit ''ok'')) None))) c1)) = []
     \<and> trim (input (rui r0)) \<noteq> [] \<and> 0 < length (rpending r1)
     \<and> input (rui r1) = lit ''hello''
     \<and> input (rui (step_retrieve (Settle 0 (Rejected None)) r1)) = []"
    using a b d t c0 c1 r0 r1 r1' by simp
  then show ?thesis
    unfolding c0_def c1_def r0_def r1_def .
qed

theorem input_cleared_when_settled_counterexample:
  "input (ui (run_chat [Change (lit ''hello''), Submit, Settle 0 (Rejected None)]
      (mount_chat None))) = []
   \<and> messages (ui (run_chat [Change (lit ''hello''), Submit, Settle 0 (Rejected None)]
      (mount_chat None)))
     = [\<lparr>role = Assistant, content = Some (errorContent_chat None), msg_context = None\<rparr>]
   \<and> userTurns (messages (ui (run_chat [Change (lit ''hello''), Submit, Settle 0 (Rejected None)]
      (mount_chat None)))) = []
   \<and> errorContent_chat None \<noteq> lit ''hello''"
  by (simp add: step_chat_def sendMessage_chat_def newUserMessage_def requestBody_def
      resume_chat_def catch_chat_def remove_nth_def mount_chat_def RiskChat_chat_def
      initialMessages_chat_def userTurns_def errorContent_chat_def string_defs)

end
